theory Spec2Isabelle
  imports Main "HOL-Library.Sublist"
begin

section \<open>Go values used by the two packages\<close>

text \<open>
  A Go \<open>string\<close> is a sequence of bytes, which is what \<^typ>\<open>string\<close> is here.
  A Go \<open>error\<close> is \<open>nil\<close> or a value: \<^typ>\<open>'a option\<close> over the datatype below.
  A run-time panic (index out of range, nil dereference) is not an error value: a function
  that can panic returns \<open>panic + 'a\<close>, with \<open>Inl\<close> for the panic.
\<close>

datatype error_code = Unauthorized

datatype error =
    Errorf string
      \<comment> \<open>\<open>fmt.Errorf\<close>, \<open>errors.Errorf\<close>, \<open>errors.New\<close>: the formatted message\<close>
  | APIError error_code string
      \<comment> \<open>\<open>httperror.NewAPIError(code, message)\<close>\<close>
  | GetRequestFailed int string "error"
      \<comment> \<open>\<open>fmt.Errorf("[keycloak oidc]: GET request failed, got status code: %d. url: %s,
          err: %s", statusCode, search, err)\<close>, kept as its three arguments\<close>
  | External string
      \<comment> \<open>an error value handed back by a library or a collaborator outside these files\<close>

datatype panic =
    IndexOutOfRange nat nat  \<comment> \<open>index, length\<close>
  | NilDereference

subsection \<open>The functions of package \<open>strings\<close> the code calls\<close>

text \<open>\<open>strings.Index(s, substr)\<close>: the first position where \<open>substr\<close> starts, Go's
  \<open>-1\<close> being \<open>None\<close>.\<close>

fun Index :: "string \<Rightarrow> string \<Rightarrow> nat option" where
  "Index [] substr = (if substr = [] then Some 0 else None)"
| "Index (c # s) substr =
     (if prefix substr (c # s) then Some 0 else map_option Suc (Index s substr))"

text \<open>
  The loop of \<open>strings.genSplit\<close>: at most \<open>k\<close> times, cut \<open>s\<close> after the next separator,
  keeping \<open>sepSave\<close> bytes of it in the piece; what is left is the last piece.
\<close>

fun split_loop :: "string \<Rightarrow> nat \<Rightarrow> nat \<Rightarrow> string \<Rightarrow> string list" where
  "split_loop sep sepSave 0 s = [s]"
| "split_loop sep sepSave (Suc k) s =
     (case Index s sep of
        None \<Rightarrow> [s]
      | Some m \<Rightarrow> take (m + sepSave) s # split_loop sep sepSave k (drop (m + length sep) s))"

text \<open>
  \<open>genSplit(s, sep, sepSave, n)\<close>. With \<open>n < 0\<close> Go sets \<open>n = Count(s, sep) + 1\<close>, so that
  the loop runs until \<open>Index\<close> finds no separator; each round removes at least one byte, so
  \<open>length s\<close> rounds are as many as it can take (lemma \<open>split_loop_fuel\<close>). With \<open>n > 0\<close>
  the loop runs at most \<open>n - 1\<close> times. Every separator in these packages is a non-empty
  literal; for the empty one Go cuts \<open>s\<close> into its UTF-8 sequences, written here for
  single-byte text.
\<close>

definition genSplit :: "string \<Rightarrow> string \<Rightarrow> nat \<Rightarrow> int \<Rightarrow> string list" where
  "genSplit s sep sepSave n =
     (if n = 0 then []
      else if sep = [] then
        (if n < 0 \<or> length s \<le> nat n then map (\<lambda>c. [c]) s
         else map (\<lambda>c. [c]) (take (nat n - 1) s) @ [drop (nat n - 1) s])
      else split_loop sep sepSave (if n < 0 then length s else nat n - 1) s)"

definition Split :: "string \<Rightarrow> string \<Rightarrow> string list" where
  "Split s sep = genSplit s sep 0 (- 1)"

definition SplitN :: "string \<Rightarrow> string \<Rightarrow> int \<Rightarrow> string list" where
  "SplitN s sep n = genSplit s sep 0 n"

definition SplitAfter :: "string \<Rightarrow> string \<Rightarrow> string list" where
  "SplitAfter s sep = genSplit s sep (length sep) (- 1)"

definition TrimPrefix :: "string \<Rightarrow> string \<Rightarrow> string" where
  "TrimPrefix s p = (if prefix p s then drop (length p) s else s)"

fun Join :: "string list \<Rightarrow> string \<Rightarrow> string" where
  "Join [] sep = []"
| "Join [x] sep = x"
| "Join (x # y # ys) sep = x @ sep @ Join (y # ys) sep"

text \<open>Indexing a slice: Go panics out of range.\<close>

definition at_index :: "'a list \<Rightarrow> nat \<Rightarrow> panic + 'a" where
  "at_index xs i = (if i < length xs then Inr (xs ! i) else Inl (IndexOutOfRange i (length xs)))"

section \<open>Package \<open>keycloakoidc\<close>: the admin search URL\<close>

text \<open>
  \<open>getSearchURL\<close> (keycloak\_client.go, lines 142--149): the issuer is split after every
  \<open>"/auth/"\<close> and the first two pieces are formatted as \<open>"%sadmin/%s"\<close>. The function has
  no branch that returns an error: its second result is always \<open>nil\<close>, and reading a piece
  that is not there panics.
\<close>

definition getSearchURL :: "string \<Rightarrow> panic + (string \<times> error option)" where
  "getSearchURL issuer =
     (let splitIssuer = SplitAfter issuer ''/auth/'' in
      case at_index splitIssuer 0 of
        Inl p \<Rightarrow> Inl p
      | Inr s0 \<Rightarrow>
          (case at_index splitIssuer 1 of
             Inl p \<Rightarrow> Inl p
           | Inr s1 \<Rightarrow> Inr (s0 @ ''admin/'' @ s1, None)))"

section \<open>Package \<open>oidc\<close>: principals\<close>

definition Name :: string where "Name = ''oidc''"
definition UserType :: string where "UserType = ''user''"
definition GroupType :: string where "GroupType = ''group''"

text \<open>The fields of \<open>v3.Principal\<close> these files set or read; \<open>ObjectMeta_Name\<close> is
  \<open>ObjectMeta.Name\<close>, the principal's id string.\<close>

record Principal =
  ObjectMeta_Name :: string
  DisplayName :: string
  LoginName :: string
  PrincipalType :: string
  Provider :: string
  Me :: bool
  MemberOf :: bool

text \<open>The zero value \<open>v3.Principal{}\<close> (\<open>var p v3.Principal\<close>).\<close>

definition zero_Principal :: Principal where
  "zero_Principal = \<lparr>ObjectMeta_Name = [], DisplayName = [], LoginName = [],
     PrincipalType = [], Provider = [], Me = False, MemberOf = False\<rparr>"

record Token =
  UserPrincipal :: Principal
  GroupPrincipals :: "Principal list"

text \<open>\<open>oidc.UserInfo\<close> and the \<open>claimInfo\<close> decoded from it.\<close>

record UserInfo =
  ui_Subject :: string
  ui_Email :: string

record claimInfo =
  ci_Subject :: string
  ci_Name :: string
  ci_PreferredUsername :: string
  ci_GivenName :: string
  ci_FamilyName :: string
  ci_Email :: string
  ci_EmailVerified :: bool
  ci_Groups :: "string list"

definition GetName :: string where
  "GetName = Name"

definition IsThisUserMe :: "Principal \<Rightarrow> Principal \<Rightarrow> bool" where
  "IsThisUserMe me other =
     (if ObjectMeta_Name me = ObjectMeta_Name other \<and> LoginName me = LoginName other
         \<and> PrincipalType me = PrincipalType other
      then True else False)"

definition userToPrincipal :: "UserInfo \<Rightarrow> claimInfo \<Rightarrow> Principal" where
  "userToPrincipal userInfo info =
     (let displayName = (if ci_Name info = [] then ui_Email userInfo else ci_Name info) in
      \<lparr>ObjectMeta_Name = GetName @ ''_'' @ UserType @ ''://'' @ ui_Subject userInfo,
       DisplayName = displayName,
       LoginName = ui_Email userInfo,
       PrincipalType = UserType,
       Provider = GetName,
       Me = False,
       MemberOf = False\<rparr>)"

definition groupToPrincipal :: "string \<Rightarrow> Principal" where
  "groupToPrincipal groupName =
     \<lparr>ObjectMeta_Name = GetName @ ''_'' @ GroupType @ ''://'' @ groupName,
      DisplayName = groupName,
      LoginName = [],
      PrincipalType = GroupType,
      Provider = GetName,
      Me = False,
      MemberOf = False\<rparr>"

text \<open>
  \<open>toPrincipalFromToken\<close>: \<open>isMemberOf\<close> is \<open>o.TokenMGR.IsMemberOf\<close>, a collaborator outside
  these files; the token is a pointer, \<open>None\<close> when \<open>nil\<close>.
\<close>

definition toPrincipalFromToken ::
  "(Token \<Rightarrow> Principal \<Rightarrow> bool) \<Rightarrow> string \<Rightarrow> Principal \<Rightarrow> Token option \<Rightarrow> Principal" where
  "toPrincipalFromToken isMemberOf principalType princ token =
     (if principalType = UserType then
        (let princ1 = princ\<lparr>PrincipalType := UserType\<rparr> in
         case token of
           None \<Rightarrow> princ1
         | Some t \<Rightarrow>
             (let princ2 = princ1\<lparr>Me := IsThisUserMe (UserPrincipal t) princ1\<rparr> in
              if Me princ2
              then princ2\<lparr>LoginName := LoginName (UserPrincipal t),
                          DisplayName := DisplayName (UserPrincipal t)\<rparr>
              else princ2))
      else
        (let princ1 = princ\<lparr>PrincipalType := GroupType\<rparr> in
         case token of
           None \<Rightarrow> princ1
         | Some t \<Rightarrow> princ1\<lparr>MemberOf := isMemberOf t princ1\<rparr>))"

text \<open>
  The first half of \<open>GetPrincipal\<close> (lines 186--204), which the specification calls
  \<open>parsePrincipalID\<close>: the id is cut at its first \<open>":"\<close>, a leading \<open>"//"\<close> is taken off what
  follows, and what precedes is cut at its first \<open>"_"\<close>. The result is the pair
  \<open>(principalType, externalID)\<close>. Both reads \<open>parts[1]\<close> and \<open>parts[0]\<close> stand behind a
  check that \<open>parts\<close> has two elements.
\<close>

definition parsePrincipalID :: "string \<Rightarrow> error + (string \<times> string)" where
  "parsePrincipalID principalID =
     (let parts = SplitN principalID '':'' 2 in
      if length parts \<noteq> 2 then Inl (Errorf (''invalid id '' @ principalID))
      else
        let externalID = TrimPrefix (parts ! 1) ''//'';
            parts2 = SplitN (parts ! 0) ''_'' 2 in
        if length parts2 \<noteq> 2 then Inl (Errorf (''invalid id '' @ principalID))
        else
          let principalType = parts2 ! 1 in
          if externalID = [] \<and> principalType = []
          then Inl (Errorf (''[generic oidc]: invalid id '' @ principalID))
          else if principalType \<noteq> UserType \<and> principalType \<noteq> GroupType
          then Inl (Errorf ''[generic oidc]: invalid principal type'')
          else Inr (principalType, externalID))"

text \<open>
  \<open>GetPrincipal\<close>: on a parse error the zero principal and the error; otherwise the
  principal is rebuilt (lines 205--215) and completed from the caller's token, which is
  passed by address and so never \<open>nil\<close>.
\<close>

definition GetPrincipal ::
  "(Token \<Rightarrow> Principal \<Rightarrow> bool) \<Rightarrow> string \<Rightarrow> Token \<Rightarrow> Principal \<times> error option" where
  "GetPrincipal isMemberOf principalID token =
     (case parsePrincipalID principalID of
        Inl e \<Rightarrow> (zero_Principal, Some e)
      | Inr (principalType, externalID) \<Rightarrow>
          (let p =
             (if principalID = UserType then
                \<lparr>ObjectMeta_Name = principalType @ ''://'' @ externalID,
                 DisplayName = externalID,
                 LoginName = externalID,
                 PrincipalType = UserType,
                 Provider = GetName,
                 Me = False,
                 MemberOf = False\<rparr>
              else groupToPrincipal externalID)
           in (toPrincipalFromToken isMemberOf principalType p (Some token), None)))"

section \<open>Package \<open>oidc\<close>: the login flow\<close>

text \<open>The fields of \<open>v32.OIDCConfig\<close> and \<open>v32.OIDCLogin\<close> the two packages read.\<close>

record OIDCConfig =
  Issuer :: string
  ClientID :: string
  ClientSecret :: string
  RancherURL :: string
  Scopes :: string
  Certificate :: string
  PrivateKey :: string
  AccessMode :: string
  AllowedPrincipalIDs :: "string list"

record OIDCLogin =
  Code :: string

text \<open>\<open>oauth2.Config\<close> as \<open>LoginUser\<close> fills it (the endpoint belongs to the provider), and
  \<open>oauth2.Token\<close>: \<open>Extra k\<close> is \<open>Some s\<close> when \<open>oauth2Token.Extra(k).(string)\<close> succeeds
  with \<open>s\<close>.\<close>

record oauth2_Config =
  oc_ClientID :: string
  oc_ClientSecret :: string
  oc_RedirectURL :: string
  oc_Scopes :: "string list"

record oauth2_Token =
  AccessToken :: string
  Extra :: "string \<Rightarrow> string option"

text \<open>
  What \<open>LoginUser\<close> calls outside these files, each with the arguments the code passes:
  the configuration store, the TLS set-up, the \<open>go-oidc\<close> and \<open>oauth2\<close> libraries and the
  user manager. A call that returns \<open>(value, error)\<close> is \<open>error + value\<close>;
  \<open>CheckAccess\<close> returns both.
\<close>

record LoginEnv =
  GetOIDCConfig :: "error + OIDCConfig"
  AddCertKeyToContext :: "string \<Rightarrow> string \<Rightarrow> error option"
  NewProvider :: "string \<Rightarrow> error option"
  Exchange :: "oauth2_Config \<Rightarrow> string \<Rightarrow> string \<Rightarrow> error + oauth2_Token"
  Verify :: "string \<Rightarrow> string \<Rightarrow> error option"
  FetchUserInfo :: "oauth2_Token \<Rightarrow> error + UserInfo"
  Claims :: "UserInfo \<Rightarrow> error + claimInfo"
  CheckAccess :: "string \<Rightarrow> string list \<Rightarrow> string \<Rightarrow> Principal list \<Rightarrow> bool \<times> error option"

text \<open>
  \<open>LoginUser\<close> (lines 85--162). The result is the four values the Go function returns;
  a \<open>nil\<close> slice is \<open>[]\<close>. At line 127 the code returns the variable \<open>err\<close>, which
  at that point holds the \<open>nil\<close> that \<open>Exchange\<close> returned.
\<close>

definition LoginUser ::
  "LoginEnv \<Rightarrow> OIDCLogin \<Rightarrow> OIDCConfig option \<Rightarrow> Principal \<times> Principal list \<times> string \<times> error option" where
  "LoginUser env oauthLoginInfo config0 =
     (case (case config0 of None \<Rightarrow> GetOIDCConfig env | Some c \<Rightarrow> Inr c) of
        Inl err \<Rightarrow> (zero_Principal, [], [], Some err)
      | Inr config \<Rightarrow>
     (case AddCertKeyToContext env (Certificate config) (PrivateKey config) of
        Some err \<Rightarrow> (zero_Principal, [], [], Some err)
      | None \<Rightarrow>
     (case NewProvider env (Issuer config) of
        Some err \<Rightarrow> (zero_Principal, [], [], Some err)
      | None \<Rightarrow>
     (let configScopes = Split (Scopes config) '','';
          allScopes = ''openid'' # configScopes;
          oauthConfig = \<lparr>oc_ClientID = ClientID config, oc_ClientSecret = ClientSecret config,
                         oc_RedirectURL = RancherURL config, oc_Scopes = allScopes\<rparr>
      in
      case Exchange env oauthConfig (Code oauthLoginInfo) (Join allScopes '' '') of
        Inl err \<Rightarrow> (zero_Principal, [], [], Some err)
      | Inr oauth2Token \<Rightarrow>
     (case (case Extra oauth2Token ''id_token'' of
              Some t \<Rightarrow> Some t
            | None \<Rightarrow> Extra oauth2Token ''access_token'') of
        None \<Rightarrow> (zero_Principal, [], [], None)
      | Some rawToken \<Rightarrow>
     (case Verify env (ClientID config) rawToken of
        Some err \<Rightarrow> (zero_Principal, [], [], Some err)
      | None \<Rightarrow>
     (case FetchUserInfo env oauth2Token of
        Inl err \<Rightarrow> (zero_Principal, [], [], Some err)
      | Inr userInfo \<Rightarrow>
     (case Claims env userInfo of
        Inl err \<Rightarrow> (zero_Principal, [], [], Some err)
      | Inr info \<Rightarrow>
     (let userPrincipal = (userToPrincipal userInfo info)\<lparr>Me := True\<rparr>;
          groupPrincipals = map (\<lambda>g. (groupToPrincipal g)\<lparr>MemberOf := True\<rparr>) (ci_Groups info)
      in
      case CheckAccess env (AccessMode config) (AllowedPrincipalIDs config)
             (ObjectMeta_Name userPrincipal) groupPrincipals of
        (allowed, Some err) \<Rightarrow> (userPrincipal, groupPrincipals, [], Some err)
      | (allowed, None) \<Rightarrow>
          if \<not> allowed
          then (userPrincipal, groupPrincipals, [], Some (APIError Unauthorized ''unauthorized''))
          else (userPrincipal, groupPrincipals, AccessToken oauth2Token, None))))))))))"

section \<open>Package \<open>keycloakoidc\<close>: the directory client\<close>

record account =
  ac_ID :: int
  ac_Email :: string
  ac_EmailVerified :: string
  ac_Username :: string
  ac_Enabled :: bool
  ac_Name :: string
  ac_LastName :: string
  ac_Type :: string

definition zero_account :: account where
  "zero_account = \<lparr>ac_ID = 0, ac_Email = [], ac_EmailVerified = [], ac_Username = [],
     ac_Enabled = False, ac_Name = [], ac_LastName = [], ac_Type = []\<rparr>"

datatype Group = Group (g_ID: int) (g_Name: string) (Subgroups: "Group list")

text \<open>
  Modelled from the spec: the constants \<open>UserType\<close> and \<open>GroupType\<close> of package
  \<open>keycloakoidc\<close> are declared in a file that is not among the sources. The endpoints the
  specification names, \<open>/users?search=\<close> and \<open>/groups?search=\<close>, are formatted by
  \<open>"%s/%ss?search=%s"\<close>, which makes the constants \<open>"user"\<close> and \<open>"group"\<close>.
\<close>

definition kc_UserType :: string where "kc_UserType = ''user''"
definition kc_GroupType :: string where "kc_GroupType = ''group''"

text \<open>
  \<open>getSubGroups\<close> (lines 107--120): the \<open>range\<close> loop is \<open>subgroups_loop\<close>, with the
  index \<open>i\<close>, the elements still to visit and the slice \<open>groups\<close> built so far.
\<close>

fun getSubGroups :: "Group \<Rightarrow> Group list"
  and subgroups_loop :: "nat \<Rightarrow> Group list \<Rightarrow> Group list \<Rightarrow> Group list" where
  "getSubGroups (Group gid nm subs) =
     (if length subs > 0 then subgroups_loop 0 subs [] else [])"
| "subgroups_loop i [] groups = groups"
| "subgroups_loop i (sub # rest) groups =
     (if i < 100
      then subgroups_loop (i + 1) rest ((groups @ [sub]) @ getSubGroups sub)
      else subgroups_loop (i + 1) rest groups)"

text \<open>
  The HTTP side. An \<open>*http.Client\<close> is modelled by what its \<open>Do\<close> returns for the
  \<open>Authorization\<close> header and the URL of a request; the pointer is \<open>None\<close> when \<open>nil\<close>, and
  calling \<open>Do\<close> through a \<open>nil\<close> pointer panics. \<open>ReadAll\<close> is what
  \<open>ioutil.ReadAll(resp.Body)\<close> returns.
\<close>

record Response =
  StatusCode :: int
  ReadAll :: "string \<times> error option"

type_synonym http_Client = "string \<Rightarrow> string \<Rightarrow> Response option \<times> error option"

record KClient =
  httpClient :: "http_Client option"

text \<open>
  The collaborators outside these files: \<open>GetClientWithCertKey\<close> (package \<open>oidc\<close>, another
  file), which receives the client pointer by value, \<open>http.NewRequest\<close>, \<open>url.Parse\<close>
  followed by \<open>String\<close>, and \<open>json.Unmarshal\<close> at the three types it is used at.
\<close>

record Backend =
  GetClientWithCertKey :: "http_Client option \<Rightarrow> string \<Rightarrow> string \<Rightarrow> error option"
  NewRequest :: "string \<Rightarrow> error option"
  url_Parse_String :: "string \<Rightarrow> error + string"
  Unmarshal_accounts :: "string \<Rightarrow> error + account list"
  Unmarshal_groups :: "string \<Rightarrow> error + Group list"
  Unmarshal_account :: "string \<Rightarrow> account \<times> error option"

text \<open>
  \<open>newClient\<close> (lines 40--49): \<open>kClient := KClient{}\<close> has a \<open>nil\<close> \<open>httpClient\<close>, which
  no statement assigns; the receiver \<open>k\<close> is not read.
\<close>

definition newClient :: "Backend \<Rightarrow> KClient \<Rightarrow> OIDCConfig \<Rightarrow> KClient \<times> error option" where
  "newClient env k config =
     (let kClient = \<lparr>httpClient = None\<rparr> in
      if Certificate config \<noteq> [] \<and> PrivateKey config \<noteq> []
      then (case GetClientWithCertKey env (httpClient kClient) (Certificate config)
                   (PrivateKey config) of
              Some err \<Rightarrow> (\<lparr>httpClient = None\<rparr>, Some err)
            | None \<Rightarrow> (kClient, None))
      else (kClient, None))"

definition URLEncoded :: "Backend \<Rightarrow> string \<Rightarrow> string" where
  "URLEncoded env str = (case url_Parse_String env str of Inl err \<Rightarrow> str | Inr u \<Rightarrow> u)"

text \<open>
  Lines 174--185 of \<open>getFromKeyCloak\<close>: what is made of the two results of \<open>Do\<close>. Reading
  \<open>resp.StatusCode\<close> or \<open>resp.Body\<close> of a \<open>nil\<close> response panics. In the \<open>default\<close> case
  of the switch the error returned is the one \<open>ReadAll\<close> gave.
\<close>

definition read_response ::
  "Response option \<times> error option \<Rightarrow> panic + (string \<times> int \<times> error option)" where
  "read_response result =
     (case result of
        (resp, Some err) \<Rightarrow>
          (case resp of
             None \<Rightarrow> Inl NilDereference
           | Some r \<Rightarrow> Inr ([], StatusCode r, Some err))
      | (resp, None) \<Rightarrow>
          (case resp of
             None \<Rightarrow> Inl NilDereference
           | Some r \<Rightarrow>
               (case ReadAll r of
                  (b, err) \<Rightarrow>
                    if StatusCode r = 200 then Inr (b, StatusCode r, None)
                    else if StatusCode r = 201 then Inr (b, StatusCode r, None)
                    else Inr (b, StatusCode r, err))))"

text \<open>
  \<open>getFromKeyCloak\<close> (lines 161--186) returns the body, the status and an error. The
  request is sent through the client \<open>newClient\<close> has just returned, not through the
  receiver \<open>k\<close>.
\<close>

definition getFromKeyCloak ::
  "Backend \<Rightarrow> KClient \<Rightarrow> string \<Rightarrow> string \<Rightarrow> OIDCConfig
     \<Rightarrow> panic + (string \<times> int \<times> error option)" where
  "getFromKeyCloak env k accessToken url config =
     (case newClient env k config of
        (kHTTPClient, Some err) \<Rightarrow> Inr ([], 500, Some err)
      | (kHTTPClient, None) \<Rightarrow>
     (case NewRequest env url of
        Some err \<Rightarrow> Inr ([], 500, Some err)
      | None \<Rightarrow>
     (case httpClient kHTTPClient of
        None \<Rightarrow> Inl NilDereference
      | Some client \<Rightarrow> read_response (client (''token '' @ accessToken) url))))"

definition group_account :: "Group \<Rightarrow> account" where
  "group_account g = zero_account\<lparr>ac_ID := g_ID g, ac_Name := g_Name g, ac_Type := kc_GroupType\<rparr>"

text \<open>
  \<open>searchPrincipals\<close> (lines 51--105) in its two blocks. Each block either returns from
  the function (\<open>Return\<close>) or goes on with the accounts collected so far (\<open>Continue\<close>).
\<close>

datatype flow = Return "account list \<times> error option" | Continue "account list"

definition search_users ::
  "Backend \<Rightarrow> KClient \<Rightarrow> string \<Rightarrow> string \<Rightarrow> string \<Rightarrow> OIDCConfig \<Rightarrow> account list
     \<Rightarrow> panic + flow" where
  "search_users env k sURL searchTerm accessToken config accounts =
     (let searchURL = sURL @ ''/'' @ kc_UserType @ ''s?search='' @ searchTerm;
          search = URLEncoded env searchURL
      in
      case getFromKeyCloak env k accessToken search config of
        Inl p \<Rightarrow> Inl p
      | Inr (b, statusCode, err) \<Rightarrow>
          if statusCode = 401 then Inr (Return ([], None))
          else
            (case err of
               Some e \<Rightarrow> Inr (Return (accounts, Some (GetRequestFailed statusCode search e)))
             | None \<Rightarrow>
                 (case Unmarshal_accounts env b of
                    Inl e \<Rightarrow> Inr (Return (accounts, Some e))
                  | Inr userAccounts \<Rightarrow>
                      Inr (Continue
                        (foldl (\<lambda>acc u. acc @ [u\<lparr>ac_Type := kc_UserType\<rparr>]) accounts userAccounts)))))"

definition search_groups ::
  "Backend \<Rightarrow> KClient \<Rightarrow> string \<Rightarrow> string \<Rightarrow> string \<Rightarrow> OIDCConfig \<Rightarrow> account list
     \<Rightarrow> panic + flow" where
  "search_groups env k sURL searchTerm accessToken config accounts =
     (let searchURL = sURL @ ''/'' @ kc_GroupType @ ''s?search='' @ searchTerm;
          search = URLEncoded env searchURL
      in
      case getFromKeyCloak env k accessToken search config of
        Inl p \<Rightarrow> Inl p
      | Inr (b, statusCode, err) \<Rightarrow>
          if statusCode = 401 then Inr (Return ([], None))
          else
            (case err of
               Some e \<Rightarrow> Inr (Return (accounts, Some e))
             | None \<Rightarrow>
                 (case Unmarshal_groups env b of
                    Inl e \<Rightarrow> Inr (Return (accounts, Some e))
                  | Inr groups \<Rightarrow>
                      Inr (Continue
                        (foldl (\<lambda>acc g.
                            foldl (\<lambda>acc2 sg. acc2 @ [group_account sg])
                              (acc @ [group_account g]) (getSubGroups g))
                          accounts groups)))))"

definition searchPrincipals ::
  "Backend \<Rightarrow> KClient \<Rightarrow> string \<Rightarrow> string \<Rightarrow> string \<Rightarrow> OIDCConfig
     \<Rightarrow> panic + (account list \<times> error option)" where
  "searchPrincipals env k searchTerm principalType accessToken config =
     (case getSearchURL (Issuer config) of
        Inl p \<Rightarrow> Inl p
      | Inr (sURL, Some err) \<Rightarrow> Inr ([], Some err)
      | Inr (sURL, None) \<Rightarrow>
     (case (if principalType = [] \<or> principalType = kc_UserType
            then search_users env k sURL searchTerm accessToken config []
            else Inr (Continue [])) of
        Inl p \<Rightarrow> Inl p
      | Inr (Return r) \<Rightarrow> Inr r
      | Inr (Continue accounts) \<Rightarrow>
     (case (if principalType = [] \<or> principalType = kc_GroupType
            then search_groups env k sURL searchTerm accessToken config accounts
            else Inr (Continue accounts)) of
        Inl p \<Rightarrow> Inl p
      | Inr (Return r) \<Rightarrow> Inr r
      | Inr (Continue accounts2) \<Rightarrow> Inr (accounts2, None))))"

text \<open>\<open>getFromKeyCloakByID\<close> (lines 122--141). An error of \<open>getSearchURL\<close> would be
  answered with \<open>account{}, nil\<close>.\<close>

definition getFromKeyCloakByID ::
  "Backend \<Rightarrow> KClient \<Rightarrow> string \<Rightarrow> string \<Rightarrow> string \<Rightarrow> OIDCConfig
     \<Rightarrow> panic + (account \<times> error option)" where
  "getFromKeyCloakByID env k principalID accessToken searchType config =
     (case getSearchURL (Issuer config) of
        Inl p \<Rightarrow> Inl p
      | Inr (sURL, Some err) \<Rightarrow> Inr (zero_account, None)
      | Inr (sURL, None) \<Rightarrow>
          (let searchURL = sURL @ ''/'' @ searchType @ ''/'' @ principalID;
               search = URLEncoded env searchURL
           in
           case getFromKeyCloak env k accessToken search config of
             Inl p \<Rightarrow> Inl p
           | Inr (b, statusCode, err) \<Rightarrow>
               (case err of
                  Some e \<Rightarrow> Inr (zero_account, Some (GetRequestFailed statusCode search e))
                | None \<Rightarrow>
                    (case Unmarshal_account env b of
                       (searchResult, Some e) \<Rightarrow> Inr (searchResult, Some e)
                     | (searchResult, None) \<Rightarrow> Inr (searchResult, None)))))"

section \<open>Notions the properties are stated with\<close>

text \<open>
  The pieces of a principal id as the specification describes them: the text before the
  first \<open>":"\<close>, and in it the text after the first \<open>"_"\<close> (the kind) and before it (the
  provider).
\<close>

definition id_head :: "string \<Rightarrow> string" where
  "id_head pid = takeWhile (\<lambda>x. x \<noteq> CHR '':'') pid"

definition id_provider :: "string \<Rightarrow> string" where
  "id_provider pid = takeWhile (\<lambda>x. x \<noteq> CHR ''_'') (id_head pid)"

definition id_kind :: "string \<Rightarrow> string" where
  "id_kind pid = tl (dropWhile (\<lambda>x. x \<noteq> CHR ''_'') (id_head pid))"

text \<open>
  The subgroups of a group without any cap: \<open>subgroup_of\<close> is the transitive closure of
  "is an element of the subgroup list of", and \<open>all_subgroups\<close> lists that closure depth
  first, parents before their children. \<open>within_cap\<close> says that no subgroup list, at any
  level, is longer than 100.
\<close>

inductive subgroup_of :: "Group \<Rightarrow> Group \<Rightarrow> bool" where
  child: "s \<in> set (Subgroups g) \<Longrightarrow> subgroup_of s g"
| nested: "subgroup_of s h \<Longrightarrow> h \<in> set (Subgroups g) \<Longrightarrow> subgroup_of s g"

fun all_subgroups :: "Group \<Rightarrow> Group list" where
  "all_subgroups (Group gid nm subs) = concat (map (\<lambda>s. s # all_subgroups s) subs)"

fun within_cap :: "Group \<Rightarrow> bool" where
  "within_cap (Group gid nm subs) = (length subs \<le> 100 \<and> (\<forall>s \<in> set subs. within_cap s))"

text \<open>An error value that one of the collaborators of \<open>LoginUser\<close> returns on some call.\<close>

definition handed_back :: "LoginEnv \<Rightarrow> error \<Rightarrow> bool" where
  "handed_back env e =
     (GetOIDCConfig env = Inl e
      \<or> (\<exists>cert key. AddCertKeyToContext env cert key = Some e)
      \<or> (\<exists>issuer. NewProvider env issuer = Some e)
      \<or> (\<exists>cfg code scope. Exchange env cfg code scope = Inl e)
      \<or> (\<exists>clientID rawToken. Verify env clientID rawToken = Some e)
      \<or> (\<exists>tok. FetchUserInfo env tok = Inl e)
      \<or> (\<exists>ui. Claims env ui = Inl e)
      \<or> (\<exists>mode allowed name groups b. CheckAccess env mode allowed name groups = (b, Some e)))"

section \<open>Concrete inputs\<close>

definition leaf :: "int \<Rightarrow> Group" where
  "leaf k = Group k ''leaf'' []"

definition small_tree :: Group where
  "small_tree = Group 1 ''root'' [Group 2 ''a'' [leaf 3, leaf 4], leaf 5]"

definition wide_group :: Group where
  "wide_group = Group 0 ''wide'' (map (\<lambda>k. leaf (int k)) [0..<150])"

definition anonymous_Token :: Token where
  "anonymous_Token = \<lparr>UserPrincipal = zero_Principal, GroupPrincipals = []\<rparr>"

definition never_member :: "Token \<Rightarrow> Principal \<Rightarrow> bool" where
  "never_member t p = False"

definition foo_config :: OIDCConfig where
  "foo_config = \<lparr>Issuer = ''https://host/auth/realms/foo'', ClientID = ''rancher'',
     ClientSecret = ''secret'', RancherURL = ''https://rancher/verify-auth'',
     Scopes = ''profile,email'', Certificate = [], PrivateKey = [],
     AccessMode = ''required'', AllowedPrincipalIDs = [''oidc_user://userA'']\<rparr>"

text \<open>Collaborators that all succeed; the bodies \<open>[]\<close> and \<open>{}\<close> decode to no records
  and to the zero account.\<close>

definition plain_backend :: Backend where
  "plain_backend =
     \<lparr>GetClientWithCertKey = (\<lambda>client cert key. None),
      NewRequest = (\<lambda>url. None),
      url_Parse_String = (\<lambda>str. Inr str),
      Unmarshal_accounts = (\<lambda>b. if b = ''[]'' then Inr [] else Inl (External ''json'')),
      Unmarshal_groups = (\<lambda>b. if b = ''[]'' then Inr [] else Inl (External ''json'')),
      Unmarshal_account =
        (\<lambda>b. (zero_account, if b = ''{}'' then None else Some (External ''json'')))\<rparr>"

text \<open>A receiver whose own \<open>httpClient\<close> is set, to a client whose server answers every
  request with the given status and body.\<close>

definition client_answering :: "int \<Rightarrow> string \<Rightarrow> http_Client" where
  "client_answering status body header url =
     (Some \<lparr>StatusCode = status, ReadAll = (body, None)\<rparr>, None)"

definition kclient_answering :: "int \<Rightarrow> string \<Rightarrow> KClient" where
  "kclient_answering status body = \<lparr>httpClient = Some (client_answering status body)\<rparr>"

text \<open>
  A login in which every step up to the access check succeeds for the subject \<open>userB\<close>;
  \<open>extras\<close> are the extra fields of the token response, and the access check allows a
  subject whose id is on the allow-list.
\<close>

definition userB_token :: "(string \<Rightarrow> string option) \<Rightarrow> oauth2_Token" where
  "userB_token extras = \<lparr>AccessToken = ''at-userB'', Extra = extras\<rparr>"

definition userB_login :: "(string \<Rightarrow> string option) \<Rightarrow> LoginEnv" where
  "userB_login extras =
     \<lparr>GetOIDCConfig = Inr foo_config,
      AddCertKeyToContext = (\<lambda>cert key. None),
      NewProvider = (\<lambda>issuer. None),
      Exchange = (\<lambda>cfg code scope. Inr (userB_token extras)),
      Verify = (\<lambda>clientID rawToken. None),
      FetchUserInfo = (\<lambda>tok. Inr \<lparr>ui_Subject = ''userB'', ui_Email = ''b@example.com''\<rparr>),
      Claims = (\<lambda>ui. Inr \<lparr>ci_Subject = ''userB'', ci_Name = ''B'', ci_PreferredUsername = [],
                  ci_GivenName = [], ci_FamilyName = [], ci_Email = ''b@example.com'',
                  ci_EmailVerified = True, ci_Groups = [''staff'']\<rparr>),
      CheckAccess = (\<lambda>mode allowed name groups. (name \<in> set allowed, None))\<rparr>"


definition no_extras :: "string \<Rightarrow> string option" where
  "no_extras k = None"

section \<open>Facts about the string functions\<close>

lemma Index_single:
  "Index s [c] = (if c \<in> set s then Some (length (takeWhile (\<lambda>x. x \<noteq> c) s)) else None)"
  by (induction s) auto

lemma SplitN_single_2:
  "SplitN s [c] 2 =
     (if c \<in> set s then [takeWhile (\<lambda>x. x \<noteq> c) s, tl (dropWhile (\<lambda>x. x \<noteq> c) s)] else [s])"
proof (cases "c \<in> set s")
  case False
  then show ?thesis
    by (simp add: SplitN_def genSplit_def Index_single)
next
  case True
  let ?m = "length (takeWhile (\<lambda>x. x \<noteq> c) s)"
  have t: "take ?m s = takeWhile (\<lambda>x. x \<noteq> c) s"
    by (rule takeWhile_eq_take [symmetric])
  have "drop (Suc ?m) s = tl (drop ?m s)"
    by (simp add: drop_Suc drop_tl)
  also have "drop ?m s = dropWhile (\<lambda>x. x \<noteq> c) s"
    by (rule dropWhile_eq_drop [symmetric])
  finally have d: "drop (Suc ?m) s = tl (dropWhile (\<lambda>x. x \<noteq> c) s)" .
  have one: "nat 2 - 1 = Suc 0"
    by simp
  show ?thesis
    using True by (simp add: SplitN_def genSplit_def Index_single one t d)
qed

text \<open>What \<open>parsePrincipalID\<close> computes, without the slices.\<close>

lemma parsePrincipalID_eq:
  "parsePrincipalID pid =
     (if CHR '':'' \<notin> set pid then Inl (Errorf (''invalid id '' @ pid))
      else
        let hd_part = takeWhile (\<lambda>x. x \<noteq> CHR '':'') pid;
            externalID = TrimPrefix (tl (dropWhile (\<lambda>x. x \<noteq> CHR '':'') pid)) ''//'' in
        if CHR ''_'' \<notin> set hd_part then Inl (Errorf (''invalid id '' @ pid))
        else
          let principalType = tl (dropWhile (\<lambda>x. x \<noteq> CHR ''_'') hd_part) in
          if externalID = [] \<and> principalType = []
          then Inl (Errorf (''[generic oidc]: invalid id '' @ pid))
          else if principalType \<noteq> UserType \<and> principalType \<noteq> GroupType
          then Inl (Errorf ''[generic oidc]: invalid principal type'')
          else Inr (principalType, externalID))"
  by (simp add: parsePrincipalID_def SplitN_single_2 Let_def)

lemma split_loop_None: "Index s sep = None \<Longrightarrow> split_loop sep sv k s = [s]"
  by (cases k) simp_all

lemma drop_sep_shorter:
  "sep \<noteq> [] \<Longrightarrow> length s = Suc n \<Longrightarrow> length (drop (m + length sep) s) \<le> n"
  by (cases sep) simp_all

text \<open>More rounds than \<open>length s\<close> change nothing: the bound used for \<open>n < 0\<close> in
  \<open>genSplit\<close> lets the loop run until no separator is left.\<close>

lemma split_loop_fuel:
  "sep \<noteq> [] \<Longrightarrow> length s \<le> k \<Longrightarrow> split_loop sep sv k s = split_loop sep sv (length s) s"
proof (induction "length s" arbitrary: s k rule: less_induct)
  case less
  show ?case
  proof (cases "Index s sep")
    case None
    then show ?thesis by (simp add: split_loop_None)
  next
    case (Some m)
    with less.prems have "s \<noteq> []" by auto
    then obtain n where n: "length s = Suc n" by (cases s) auto
    with less.prems obtain k' where k: "k = Suc k'" "n \<le> k'" by (cases k) auto
    define r where "r = drop (m + length sep) s"
    have len: "length r \<le> n"
      unfolding r_def using less.prems(1) n by (rule drop_sep_shorter)
    then have lt: "length r < length s" using n by simp
    have a: "split_loop sep sv k' r = split_loop sep sv (length r) r"
      using len k(2) by (intro less.hyps [OF lt less.prems(1)]) simp
    have b: "split_loop sep sv n r = split_loop sep sv (length r) r"
      using len by (intro less.hyps [OF lt less.prems(1)])
    have "split_loop sep sv k s = take (m + sv) s # split_loop sep sv k' r"
      unfolding k(1) r_def using Some by simp
    moreover have "split_loop sep sv (length s) s = take (m + sv) s # split_loop sep sv n r"
      unfolding n r_def using Some by simp
    ultimately show ?thesis
      unfolding a b by simp
  qed
qed

section \<open>The admin search URL\<close>

text \<open>An issuer without the marker: the second piece does not exist.\<close>

lemma getSearchURL_no_marker:
  "Index issuer ''/auth/'' = None \<Longrightarrow> getSearchURL issuer = Inl (IndexOutOfRange 1 1)"
  by (simp add: getSearchURL_def SplitAfter_def genSplit_def split_loop_None at_index_def)

text \<open>No input makes \<open>getSearchURL\<close> return an error value.\<close>

lemma getSearchURL_never_errors: "getSearchURL issuer \<noteq> Inr (u, Some e)"
  by (auto simp: getSearchURL_def Let_def split: sum.splits)

text \<open>
  C6, as the code has it. When the issuer is \<open>p\<close>, then its first \<open>"/auth/"\<close>, then a rest
  \<open>r\<close> without that marker, the search base is \<open>p\<close>, \<open>"/auth/admin/"\<close> and \<open>r\<close>: the marker
  stays in the URL and \<open>"admin/"\<close> is put after it.
\<close>

theorem getSearchURL_inserts_admin:
  assumes "Index (p @ ''/auth/'' @ r) ''/auth/'' = Some (length p)"
    and "Index r ''/auth/'' = None"
  shows "getSearchURL (p @ ''/auth/'' @ r) = Inr (p @ ''/auth/admin/'' @ r, None)"
proof -
  obtain k where k: "length (p @ ''/auth/'' @ r) = Suc k" by simp
  have "SplitAfter (p @ ''/auth/'' @ r) ''/auth/'' = [p @ ''/auth/'', r]"
    unfolding SplitAfter_def genSplit_def k
    using assms by (simp add: split_loop_None)
  then show ?thesis
    by (simp add: getSearchURL_def at_index_def)
qed

text \<open>C6, witness: the issuer of the specification's example, \<open>p = "https://host"\<close> and
  \<open>r = "realms/foo"\<close>.\<close>

theorem getSearchURL_inserts_admin_witness:
  "Index (''https://host'' @ ''/auth/'' @ ''realms/foo'') ''/auth/'' = Some (length ''https://host'')
   \<and> Index ''realms/foo'' ''/auth/'' = None
   \<and> getSearchURL ''https://host/auth/realms/foo'' = Inr (''https://host/auth/admin/realms/foo'', None)"
  using getSearchURL_inserts_admin [of "''https://host''" "''realms/foo''"]
  by simp

text \<open>C6, counterexample: for the issuer \<open>"https://host/auth/realms/foo"\<close> the search base
  is \<open>"https://host/auth/admin/realms/foo"\<close>, not \<open>"https://host/admin/realms/foo"\<close>.\<close>

theorem getSearchURL_not_host_admin:
  "getSearchURL ''https://host/auth/realms/foo'' = Inr (''https://host/auth/admin/realms/foo'', None)
   \<and> getSearchURL ''https://host/auth/realms/foo'' \<noteq> Inr (''https://host/admin/realms/foo'', None)"
  by (simp add: getSearchURL_def SplitAfter_def genSplit_def at_index_def)

text \<open>C7, the code at an issuer without \<open>"/auth/"\<close>: \<open>getSearchURL\<close> does not return an
  error, it panics reading \<open>splitIssuer[1]\<close> of a slice of length 1.\<close>

theorem getSearchURL_panics_without_marker:
  "getSearchURL ''https://host/realms/foo'' = Inl (IndexOutOfRange 1 1)"
  by (simp add: getSearchURL_def SplitAfter_def genSplit_def at_index_def)

section \<open>Principal ids\<close>

lemma parse_user_built:
  "parsePrincipalID (''oidc_user://'' @ x) = Inr (''user'', x)"
  by (simp add: parsePrincipalID_eq TrimPrefix_def UserType_def GroupType_def)

lemma parse_group_built:
  "parsePrincipalID (''oidc_group://'' @ x) = Inr (''group'', x)"
  by (simp add: parsePrincipalID_eq TrimPrefix_def UserType_def GroupType_def)

text \<open>
  C8. The id of the principal \<open>userToPrincipal\<close> builds parses to that principal's kind
  and to the subject it was built from; the id of the principal \<open>groupToPrincipal\<close> builds
  parses to its kind and to the group name. \<open>"oidc_user://abc123"\<close> parses to the user
  kind and \<open>"abc123"\<close>; \<open>"garbage"\<close> is rejected with the invalid-id error.
\<close>

theorem principal_id_round_trip:
  "parsePrincipalID (ObjectMeta_Name (userToPrincipal userInfo info))
     = Inr (PrincipalType (userToPrincipal userInfo info), ui_Subject userInfo)
   \<and> PrincipalType (userToPrincipal userInfo info) = UserType
   \<and> parsePrincipalID (ObjectMeta_Name (groupToPrincipal g))
     = Inr (PrincipalType (groupToPrincipal g), g)
   \<and> PrincipalType (groupToPrincipal g) = GroupType
   \<and> parsePrincipalID ''oidc_user://abc123'' = Inr (UserType, ''abc123'')
   \<and> parsePrincipalID ''garbage'' = Inl (Errorf ''invalid id garbage'')"
  using parse_user_built [of "ui_Subject userInfo"] parse_group_built [of g]
    parse_user_built [of "''abc123''"]
  by (simp add: userToPrincipal_def groupToPrincipal_def GetName_def Name_def UserType_def
      GroupType_def parsePrincipalID_eq [of "''garbage''"])

text \<open>
  C9, as the code has it. Parsing rejects an id, and \<open>GetPrincipal\<close> returns the zero
  principal with the error, whenever the id has no \<open>":"\<close>, or its part before the first
  \<open>":"\<close> has no \<open>"_"\<close>, or its kind is neither \<open>"user"\<close> nor \<open>"group"\<close>.
\<close>

theorem parsePrincipalID_fails_closed:
  assumes "CHR '':'' \<notin> set pid \<or> CHR ''_'' \<notin> set (id_head pid)
             \<or> (id_kind pid \<noteq> UserType \<and> id_kind pid \<noteq> GroupType)"
  shows "\<exists>e. parsePrincipalID pid = Inl e
           \<and> GetPrincipal isMemberOf pid token = (zero_Principal, Some e)"
  using assms
  by (auto simp: GetPrincipal_def parsePrincipalID_eq id_head_def id_kind_def Let_def)

text \<open>C9, witness: an id without \<open>":"\<close>, one without \<open>"_"\<close> before the \<open>":"\<close>, and one of an
  unknown kind.\<close>

theorem parsePrincipalID_fails_closed_witness:
  "(\<exists>e. parsePrincipalID ''garbage'' = Inl e
       \<and> GetPrincipal never_member ''garbage'' anonymous_Token = (zero_Principal, Some e))
   \<and> (\<exists>e. parsePrincipalID ''oidcuser://abc'' = Inl e
       \<and> GetPrincipal never_member ''oidcuser://abc'' anonymous_Token = (zero_Principal, Some e))
   \<and> (\<exists>e. parsePrincipalID ''oidc_admin://abc'' = Inl e
       \<and> GetPrincipal never_member ''oidc_admin://abc'' anonymous_Token = (zero_Principal, Some e))"
  using parsePrincipalID_fails_closed [of "''garbage''" never_member anonymous_Token]
    parsePrincipalID_fails_closed [of "''oidcuser://abc''" never_member anonymous_Token]
    parsePrincipalID_fails_closed [of "''oidc_admin://abc''" never_member anonymous_Token]
  by (simp add: id_head_def id_kind_def UserType_def GroupType_def)

text \<open>
  C9, counterexample: an id whose provider part is empty is parsed, and so is an id whose
  external id is empty; \<open>GetPrincipal\<close> returns no error for either.
\<close>

theorem parsePrincipalID_accepts_empty_parts:
  "id_provider ''_user://abc'' = []
   \<and> parsePrincipalID ''_user://abc'' = Inr (''user'', ''abc'')
   \<and> snd (GetPrincipal never_member ''_user://abc'' anonymous_Token) = None
   \<and> parsePrincipalID ''oidc_user://'' = Inr (''user'', [])
   \<and> snd (GetPrincipal never_member ''oidc_user://'' anonymous_Token) = None"
  by (simp add: GetPrincipal_def parsePrincipalID_eq id_provider_def id_head_def TrimPrefix_def
      UserType_def GroupType_def Let_def)

text \<open>
  C10. For every id \<open>"oidc_user://x"\<close> the test \<open>principalID == UserType\<close> is false, so
  \<open>GetPrincipal\<close> completes the principal \<open>groupToPrincipal x\<close>: no error is returned, the
  id of the result is \<open>"oidc_group://x"\<close>, its login name is empty and its type is the
  user type.
\<close>

theorem GetPrincipal_user_id_builds_group:
  "ObjectMeta_Name (fst (GetPrincipal isMemberOf (''oidc_user://'' @ x) token)) = ''oidc_group://'' @ x
   \<and> LoginName (fst (GetPrincipal isMemberOf (''oidc_user://'' @ x) token)) = []
   \<and> PrincipalType (fst (GetPrincipal isMemberOf (''oidc_user://'' @ x) token)) = UserType
   \<and> snd (GetPrincipal isMemberOf (''oidc_user://'' @ x) token) = None
   \<and> ''oidc_user://'' @ x \<noteq> UserType
   \<and> fst (GetPrincipal isMemberOf (''oidc_user://'' @ x) token)
       = toPrincipalFromToken isMemberOf UserType (groupToPrincipal x) (Some token)"
  using parse_user_built [of x]
  by (simp add: GetPrincipal_def toPrincipalFromToken_def groupToPrincipal_def IsThisUserMe_def
      GetName_def Name_def UserType_def GroupType_def Let_def)

section \<open>Subgroup flattening\<close>


lemma subgroups_loop_eq:
  "subgroups_loop i subs groups
     = groups @ concat (map (\<lambda>s. s # getSubGroups s) (take (100 - i) subs))"
proof (induction subs arbitrary: i groups)
  case Nil
  show ?case by simp
next
  case (Cons sub rest)
  show ?case
  proof (cases "i < 100")
    case True
    then have "100 - i = Suc (100 - (i + 1))" by simp
    then show ?thesis using True Cons.IH [of "i + 1"] by simp
  next
    case False
    then show ?thesis using Cons.IH [of "i + 1"] by simp
  qed
qed

lemma getSubGroups_eq:
  "getSubGroups g = concat (map (\<lambda>s. s # getSubGroups s) (take 100 (Subgroups g)))"
  by (cases g) (simp add: subgroups_loop_eq)

lemma getSubGroups_uncapped:
  "within_cap g \<Longrightarrow> getSubGroups g = all_subgroups g"
proof (induction g)
  case (Group gid nm subs)
  then have ih: "\<forall>s \<in> set subs. getSubGroups s = all_subgroups s" by simp
  from Group.prems have "take 100 subs = subs" by simp
  then have "getSubGroups (Group gid nm subs) = concat (map (\<lambda>s. s # getSubGroups s) subs)"
    by (subst getSubGroups_eq) simp
  also have "\<dots> = concat (map (\<lambda>s. s # all_subgroups s) subs)"
    using ih by (simp cong: map_cong)
  finally show ?case by simp
qed

lemma all_subgroups_closure: "set (all_subgroups g) = {s. subgroup_of s g}"
proof (rule set_eqI, rule iffI)
  fix s
  assume "s \<in> set (all_subgroups g)"
  then have "subgroup_of s g"
  proof (induction g)
    case (Group gid nm subs)
    then obtain h where h: "h \<in> set subs" "s = h \<or> s \<in> set (all_subgroups h)" by auto
    from h(2) show ?case
    proof
      assume "s = h"
      with h(1) show ?thesis by (simp add: subgroup_of.child)
    next
      assume "s \<in> set (all_subgroups h)"
      with Group.IH h(1) have "subgroup_of s h" by blast
      with h(1) show ?thesis by (simp add: subgroup_of.nested)
    qed
  qed
  then show "s \<in> {s. subgroup_of s g}" by simp
next
  fix s
  assume "s \<in> {s. subgroup_of s g}"
  then have "subgroup_of s g" by simp
  then show "s \<in> set (all_subgroups g)"
  proof (induction rule: subgroup_of.induct)
    case (child s g)
    then show ?case by (cases g) auto
  next
    case (nested s h g)
    then show ?case by (cases g) auto
  qed
qed

text \<open>
  C5. When no subgroup list at any level is longer than 100, \<open>getSubGroups\<close> returns the
  whole transitive closure of the subgroups, each as the record it is in the data, in
  depth-first order. At every group it walks the first 100 entries of the subgroup list
  in their order, each followed by its own flattening; for a group with 150 subgroups the
  result is that of the group cut to its first 100, whatever the other 50 are.
\<close>

theorem getSubGroups_cap:
  "(within_cap g \<longrightarrow>
      getSubGroups g = all_subgroups g \<and> set (getSubGroups g) = {s. subgroup_of s g})
   \<and> getSubGroups g = concat (map (\<lambda>s. s # getSubGroups s) (take 100 (Subgroups g)))
   \<and> (length (Subgroups g) = 150 \<longrightarrow>
        length (take 100 (Subgroups g)) = 100
        \<and> length (drop 100 (Subgroups g)) = 50
        \<and> getSubGroups g = getSubGroups (Group (g_ID g) (g_Name g) (take 100 (Subgroups g))))"
proof (intro conjI impI)
  assume "within_cap g"
  then show u: "getSubGroups g = all_subgroups g"
    by (rule getSubGroups_uncapped)
  show "set (getSubGroups g) = {s. subgroup_of s g}"
    unfolding u by (rule all_subgroups_closure)
next
  show "getSubGroups g = concat (map (\<lambda>s. s # getSubGroups s) (take 100 (Subgroups g)))"
    by (rule getSubGroups_eq)
next
  assume "length (Subgroups g) = 150"
  then show "length (take 100 (Subgroups g)) = 100" and "length (drop 100 (Subgroups g)) = 50"
    by simp_all
next
  have "getSubGroups (Group (g_ID g) (g_Name g) (take 100 (Subgroups g)))
          = concat (map (\<lambda>s. s # getSubGroups s) (take 100 (Subgroups g)))"
    by (subst getSubGroups_eq) simp
  then show "getSubGroups g = getSubGroups (Group (g_ID g) (g_Name g) (take 100 (Subgroups g)))"
    using getSubGroups_eq [of g] by (rule ssubst)
qed

lemma getSubGroups_leaf: "getSubGroups (leaf k) = []"
  by (simp add: leaf_def)

text \<open>C5, witness: a tree within the cap, and a group with 150 leaves, of which the
  first 100 are returned.\<close>

theorem getSubGroups_cap_witness:
  "within_cap small_tree
   \<and> getSubGroups small_tree = [Group 2 ''a'' [leaf 3, leaf 4], leaf 3, leaf 4, leaf 5]
   \<and> length (Subgroups wide_group) = 150
   \<and> getSubGroups wide_group = map (\<lambda>k. leaf (int k)) [0..<100]"
proof -
  have sub: "Subgroups wide_group = map (\<lambda>k. leaf (int k)) [0..<150]"
    by (simp add: wide_group_def)
  have t: "take 100 (map (\<lambda>k. leaf (int k)) [0..<150]) = map (\<lambda>k. leaf (int k)) [0..<100]"
    by (simp add: take_map)
  have c: "concat (map (\<lambda>s. s # getSubGroups s) (map (\<lambda>k. leaf (int k)) xs))
             = map (\<lambda>k. leaf (int k)) xs" for xs
    by (induction xs) (simp_all add: getSubGroups_leaf)
  have w: "within_cap small_tree"
    by (simp add: small_tree_def leaf_def)
  have a: "all_subgroups small_tree = [Group 2 ''a'' [leaf 3, leaf 4], leaf 3, leaf 4, leaf 5]"
    by (simp add: small_tree_def leaf_def)
  from getSubGroups_cap [of small_tree] w a
  have "getSubGroups small_tree = [Group 2 ''a'' [leaf 3, leaf 4], leaf 3, leaf 4, leaf 5]"
    by simp
  moreover from getSubGroups_cap [of wide_group]
  have "getSubGroups wide_group = map (\<lambda>k. leaf (int k)) [0..<100]"
    unfolding sub t c by simp
  ultimately show ?thesis using w sub by simp
qed

section \<open>The directory client\<close>

text \<open>The client \<open>newClient\<close> returns never has an \<open>httpClient\<close>.\<close>

lemma newClient_httpClient:
  "httpClient (fst (newClient env k config)) = None"
  by (simp add: newClient_def Let_def split: option.splits)

text \<open>So \<open>getFromKeyCloak\<close> has three outcomes, and none of them is a response: the error
  of \<open>newClient\<close>, the error of \<open>NewRequest\<close>, or the panic at \<open>Do\<close>.\<close>

lemma getFromKeyCloak_eq:
  "getFromKeyCloak env k accessToken url config =
     (case snd (newClient env k config) of
        Some err \<Rightarrow> Inr ([], 500, Some err)
      | None \<Rightarrow>
          (case NewRequest env url of
             Some err \<Rightarrow> Inr ([], 500, Some err)
           | None \<Rightarrow> Inl NilDereference))"
proof -
  obtain c e where ce: "newClient env k config = (c, e)"
    by (cases "newClient env k config")
  with newClient_httpClient [of env k config] have "httpClient c = None"
    by simp
  with ce show ?thesis
    by (simp add: getFromKeyCloak_def split: option.splits)
qed

lemma getFromKeyCloak_no_response:
  "getFromKeyCloak env k accessToken url config = Inr (b, st, e) \<Longrightarrow> b = [] \<and> st = 500 \<and> e \<noteq> None"
proof (cases "snd (newClient env k config)")
  case (Some err)
  assume "getFromKeyCloak env k accessToken url config = Inr (b, st, e)"
  with Some have "Inr ([], 500, Some err) = (Inr (b, st, e) :: panic + (string \<times> int \<times> error option))"
    by (simp add: getFromKeyCloak_eq)
  then show ?thesis by auto
next
  case None
  assume a: "getFromKeyCloak env k accessToken url config = Inr (b, st, e)"
  show ?thesis
  proof (cases "NewRequest env url")
    case (Some err)
    with None a
    have "Inr ([], 500, Some err) = (Inr (b, st, e) :: panic + (string \<times> int \<times> error option))"
      by (simp add: getFromKeyCloak_eq)
    then show ?thesis by auto
  next
    case None2: None
    with None a show ?thesis by (simp add: getFromKeyCloak_eq)
  qed
qed

lemma getFromKeyCloak_panics:
  "snd (newClient env k config) = None \<Longrightarrow> NewRequest env url = None
     \<Longrightarrow> getFromKeyCloak env k accessToken url config = Inl NilDereference"
  by (simp add: getFromKeyCloak_eq)

text \<open>Every search that gets as far as a request panics, whatever the receiver holds and
  whatever the server would answer.\<close>

lemma searchPrincipals_panics:
  assumes "getSearchURL (Issuer config) = Inr (sURL, None)"
    and "snd (newClient env k config) = None"
    and "\<And>url. NewRequest env url = None"
    and "principalType = [] \<or> principalType = kc_UserType \<or> principalType = kc_GroupType"
  shows "searchPrincipals env k searchTerm principalType accessToken config = Inl NilDereference"
proof -
  have g: "getFromKeyCloak env k accessToken url config = Inl NilDereference" for url
    using assms(2,3) by (rule getFromKeyCloak_panics)
  have u: "search_users env k sURL searchTerm accessToken config accs = Inl NilDereference"
    for accs
    by (simp add: search_users_def g)
  have gr: "search_groups env k sURL searchTerm accessToken config accs = Inl NilDereference"
    for accs
    by (simp add: search_groups_def g)
  from assms(4) show ?thesis
    using assms(1) u gr
    by (auto simp: searchPrincipals_def kc_UserType_def kc_GroupType_def)
qed

lemma getFromKeyCloakByID_panics:
  assumes "getSearchURL (Issuer config) = Inr (sURL, None)"
    and "snd (newClient env k config) = None"
    and "\<And>url. NewRequest env url = None"
  shows "getFromKeyCloakByID env k principalID accessToken searchType config = Inl NilDereference"
proof -
  have g: "getFromKeyCloak env k accessToken url config = Inl NilDereference" for url
    using assms(2,3) by (rule getFromKeyCloak_panics)
  show ?thesis
    using assms(1) by (simp add: getFromKeyCloakByID_def g)
qed

text \<open>Had a response been read, lines 179--185 would hand it on with a \<open>nil\<close> error for
  every status, since the \<open>default\<close> case returns the error of \<open>ReadAll\<close>.\<close>

lemma read_response_any_status:
  "ReadAll r = (b, None) \<Longrightarrow> read_response (Some r, None) = Inr (b, StatusCode r, None)"
  by (simp add: read_response_def)

lemma getSearchURL_foo:
  "getSearchURL (Issuer foo_config) = Inr (''https://host/auth/admin/realms/foo'', None)"
  by (simp add: foo_config_def getSearchURL_def SplitAfter_def genSplit_def at_index_def)

lemma newClient_foo: "snd (newClient plain_backend k foo_config) = None"
  by (simp add: newClient_def foo_config_def)

lemma NewRequest_plain: "NewRequest plain_backend url = None"
  by (simp add: plain_backend_def)

text \<open>
  C3, the code at a search whose server answers 401: for each of the three kinds
  \<open>searchPrincipals\<close> panics at \<open>Do\<close>, on the \<open>nil\<close> client of \<open>newClient\<close>, before a
  request is sent; it does not return the empty list with a \<open>nil\<close> error.
\<close>

theorem searchPrincipals_panics_before_401:
  "searchPrincipals plain_backend (kclient_answering 401 ''denied'') ''al'' ''user'' ''tok'' foo_config
     = Inl NilDereference
   \<and> searchPrincipals plain_backend (kclient_answering 401 ''denied'') ''al'' ''group'' ''tok'' foo_config
     = Inl NilDereference
   \<and> searchPrincipals plain_backend (kclient_answering 401 ''denied'') ''al'' [] ''tok'' foo_config
     = Inl NilDereference"
  using searchPrincipals_panics [OF getSearchURL_foo newClient_foo NewRequest_plain]
  by (simp add: kc_UserType_def kc_GroupType_def)

text \<open>
  C2, the code at a search and at a fetch by id whose server answers 500: both panic at
  \<open>Do\<close>, on the \<open>nil\<close> client of \<open>newClient\<close>, before a request is sent; neither returns
  an error that carries the status.
\<close>

theorem directory_request_panics_before_500:
  "searchPrincipals plain_backend (kclient_answering 500 ''oops'') ''al'' ''user'' ''tok'' foo_config
     = Inl NilDereference
   \<and> searchPrincipals plain_backend (kclient_answering 500 ''oops'') ''al'' ''group'' ''tok'' foo_config
     = Inl NilDereference
   \<and> getFromKeyCloakByID plain_backend (kclient_answering 500 ''oops'') ''42'' ''tok'' ''users'' foo_config
     = Inl NilDereference"
  using searchPrincipals_panics [OF getSearchURL_foo newClient_foo NewRequest_plain]
    getFromKeyCloakByID_panics [OF getSearchURL_foo newClient_foo NewRequest_plain]
  by (simp add: kc_UserType_def kc_GroupType_def)

section \<open>The login flow\<close>


text \<open>On every path that returns an error, the access-token string returned is empty.\<close>

lemma LoginUser_error_no_token:
  "LoginUser env oauthLoginInfo config0 = (p, gs, tok, Some e) \<Longrightarrow> tok = []"
  by (auto simp: LoginUser_def Let_def split: sum.splits option.splits prod.splits if_splits)

text \<open>An error \<open>LoginUser\<close> returns is either one a collaborator handed back or the
  unauthorized API error, and the latter only after the access check said no.\<close>

lemma LoginUser_error_source:
  assumes "LoginUser env oauthLoginInfo config0 = (p, gs, tok, Some e)"
  shows "handed_back env e
         \<or> (e = APIError Unauthorized ''unauthorized''
            \<and> (\<exists>mode allowed. CheckAccess env mode allowed (ObjectMeta_Name p) gs = (False, None)))"
  using assms unfolding LoginUser_def handed_back_def Let_def
  by (auto split: sum.splits option.splits prod.splits if_splits)



text \<open>
  C4, the code at a token response with neither extra: \<open>LoginUser\<close> stops before the
  verification, and the error it returns is \<open>nil\<close>, with the zero principal and an empty
  token.
\<close>

theorem LoginUser_no_extras:
  "LoginUser (userB_login no_extras) \<lparr>Code = ''c0de''\<rparr> None = (zero_Principal, [], [], None)"
  by (simp add: LoginUser_def userB_login_def userB_token_def no_extras_def)

end
